theory Spec2Isabelle
  imports Complex_Main "HOL-Library.Word"
begin

section \<open>JavaScript values used by the scripts\<close>

text \<open>
  A JavaScript string is a sequence of 16-bit code units; \<open>length\<close> counts code units and
  \<open>trim\<close> removes code units. String literals of the source are ASCII, so each character
  of a literal is one code unit: \<open>js\<close> turns a literal into its code units.
\<close>

type_synonym jsstring = "16 word list"

definition js :: "string \<Rightarrow> jsstring" where
  "js s = map of_char s"

text \<open>
  \<open>String.prototype.trim\<close> removes WhiteSpace and LineTerminator code units from both
  ends: TAB, LF, VT, FF, CR, SPACE, NBSP, U+1680, U+2000..U+200A, U+2028, U+2029, U+202F,
  U+205F, U+3000 and U+FEFF.
\<close>

definition is_white_space :: "16 word \<Rightarrow> bool" where
  "is_white_space c \<longleftrightarrow>
     c \<in> {0x0009, 0x000A, 0x000B, 0x000C, 0x000D, 0x0020, 0x00A0, 0x1680,
          0x2028, 0x2029, 0x202F, 0x205F, 0x3000, 0xFEFF}
     \<or> (0x2000 \<le> c \<and> c \<le> 0x200A)"

definition trim :: "jsstring \<Rightarrow> jsstring" where
  "trim s = rev (dropWhile is_white_space (rev (dropWhile is_white_space s)))"

text \<open>
  \<open>FormData.append\<close> takes its value as a scalar value string: every surrogate code unit
  that is not part of a pair (a high surrogate followed by a low one) is replaced by U+FFFD.
\<close>

definition is_high_surrogate :: "16 word \<Rightarrow> bool" where
  "is_high_surrogate c \<longleftrightarrow> 0xD800 \<le> c \<and> c \<le> 0xDBFF"

definition is_low_surrogate :: "16 word \<Rightarrow> bool" where
  "is_low_surrogate c \<longleftrightarrow> 0xDC00 \<le> c \<and> c \<le> 0xDFFF"

fun to_usv_string :: "jsstring \<Rightarrow> jsstring" where
  "to_usv_string [] = []"
| "to_usv_string [c] = (if is_high_surrogate c \<or> is_low_surrogate c then [0xFFFD] else [c])"
| "to_usv_string (c # d # cs) =
     (if is_high_surrogate c \<and> is_low_surrogate d then c # d # to_usv_string cs
      else if is_high_surrogate c \<or> is_low_surrogate c then 0xFFFD # to_usv_string (d # cs)
      else c # to_usv_string (d # cs))"

text \<open>A string with no unpaired surrogate (\<open>String.prototype.isWellFormed\<close>).\<close>

fun is_well_formed :: "jsstring \<Rightarrow> bool" where
  "is_well_formed [] = True"
| "is_well_formed [c] = (\<not> (is_high_surrogate c \<or> is_low_surrogate c))"
| "is_well_formed (c # d # cs) =
     (if is_high_surrogate c \<and> is_low_surrogate d then is_well_formed cs
      else \<not> (is_high_surrogate c \<or> is_low_surrogate c) \<and> is_well_formed (d # cs))"

text \<open>
  A decoded JSON number is a double. The scripts only test a number for truthiness and
  interpolate it into a template, so a number is kept as the real it denotes (\<open>-0\<close> as
  \<open>0\<close>) or as one of the two infinities that an overflowing literal decodes to; \<open>NaN\<close>
  cannot come out of \<open>JSON.parse\<close>.
\<close>

datatype jsnumber = Finite real | PosInfinity | NegInfinity

text \<open>
  The value that \<open>res.json()\<close> decodes. An object is its list of properties; the keys of a
  decoded object are distinct, and a property is read with \<open>map_of\<close>.
\<close>

datatype json =
    JNull
  | JBool bool
  | JNum jsnumber
  | JStr jsstring
  | JArr "json list"
  | JObj "(jsstring \<times> json) list"

text \<open>What can be thrown or be the reason of a rejected promise.\<close>

datatype jserror =
    TypeError jsstring
  | SyntaxError jsstring
  | DOMException jsstring

text \<open>
  The \<open>Response\<close> that \<open>fetch\<close> resolves with, as far as the scripts use it: what its
  \<open>json()\<close> promise settles to, the decoded body or the decoding error.
\<close>

datatype response = Response "jserror + json"

text \<open>The values that flow through the promise chains and property reads.\<close>

datatype jsval = Undefined | Json json

text \<open>ToBoolean.\<close>

fun truthy :: "jsval \<Rightarrow> bool" where
  "truthy Undefined = False"
| "truthy (Json JNull) = False"
| "truthy (Json (JBool b)) = b"
| "truthy (Json (JNum n)) = (n \<noteq> Finite 0)"
| "truthy (Json (JStr s)) = (s \<noteq> [])"
| "truthy (Json (JArr xs)) = True"
| "truthy (Json (JObj kvs)) = True"

text \<open>
  The property read \<open>data.k\<close> for the keys the scripts read (\<open>error\<close>, \<open>success\<close>,
  \<open>message\<close>): reading a property of \<open>null\<close> throws a TypeError; an object gives the
  property or \<open>undefined\<close>; booleans, numbers, strings and arrays have no property of these
  names, neither own nor inherited.
\<close>

fun get_prop :: "json \<Rightarrow> jsstring \<Rightarrow> jserror + jsval" where
  "get_prop JNull k = Inl (TypeError (js ''Cannot read properties of null''))"
| "get_prop (JObj kvs) k = Inr (case map_of kvs k of None \<Rightarrow> Undefined | Some v \<Rightarrow> Json v)"
| "get_prop (JBool b) k = Inr Undefined"
| "get_prop (JNum n) k = Inr Undefined"
| "get_prop (JStr s) k = Inr Undefined"
| "get_prop (JArr xs) k = Inr Undefined"

section \<open>Settled promise chains\<close>

text \<open>
  A chain \<open>fetch(..).then(f).then(g).catch(h).finally(k)\<close> is run when the request settles.
  Only the callbacks that touch the widget run in one uninterrupted sequence of microtasks, so
  the chain is a function from the state at settlement to the outcome, the list of reactions
  that ran, and the state afterwards. A callback returns a value or throws (\<open>Inl\<close>); a
  callback that returns a promise, as \<open>res => res.json()\<close> does, passes on what that
  promise settles to.
\<close>

datatype reaction = OnFulfilled | OnRejected | OnFinally

type_synonym ('a, 's) promise = "'s \<Rightarrow> (jserror + 'a) \<times> reaction list \<times> 's"

type_synonym ('a, 'b, 's) callback = "'a \<Rightarrow> 's \<Rightarrow> (jserror + 'b) \<times> 's"

definition settled :: "jserror + 'a \<Rightarrow> ('a, 's) promise" where
  "settled r = (\<lambda>s. (r, [], s))"

definition then_p :: "('a, 's) promise \<Rightarrow> ('a, 'b, 's) callback \<Rightarrow> ('b, 's) promise" where
  "then_p p f = (\<lambda>s.
     case p s of
       (Inl e, tr, s') \<Rightarrow> (Inl e, tr, s')
     | (Inr v, tr, s') \<Rightarrow> (case f v s' of (r, s'') \<Rightarrow> (r, tr @ [OnFulfilled], s'')))"

definition catch_p :: "('a, 's) promise \<Rightarrow> (jserror, 'a, 's) callback \<Rightarrow> ('a, 's) promise" where
  "catch_p p h = (\<lambda>s.
     case p s of
       (Inl e, tr, s') \<Rightarrow> (case h e s' of (r, s'') \<Rightarrow> (r, tr @ [OnRejected], s''))
     | (Inr v, tr, s') \<Rightarrow> (Inr v, tr, s'))"

text \<open>
  \<open>finally(k)\<close> runs \<open>k\<close> on either outcome and passes the outcome on, unless \<open>k\<close> throws.
\<close>

definition finally_p :: "('a, 's) promise \<Rightarrow> ('s \<Rightarrow> (jserror + unit) \<times> 's) \<Rightarrow> ('a, 's) promise" where
  "finally_p p k = (\<lambda>s.
     case p s of
       (r, tr, s') \<Rightarrow>
         (case k s' of
            (Inl e, s'') \<Rightarrow> (Inl e, tr @ [OnFinally], s'')
          | (Inr u, s'') \<Rightarrow> (r, tr @ [OnFinally], s'')))"

text \<open>\<open>res => res.json()\<close>\<close>

definition res_json :: "(response, json, 's) callback" where
  "res_json res s = (case res of Response r \<Rightarrow> (r, s))"

text \<open>The reactions that ran and the state after a chain has run.\<close>

definition reactions_of :: "(jserror + 'a) \<times> reaction list \<times> 's \<Rightarrow> reaction list" where
  "reactions_of x = fst (snd x)"

definition state_of :: "(jserror + 'a) \<times> reaction list \<times> 's \<Rightarrow> 's" where
  "state_of x = snd (snd x)"

section \<open>Requests\<close>

datatype http_method = GET | POST

text \<open>
  A request body: none, a \<open>FormData\<close> with its entries in the order appended, or
  \<open>JSON.stringify\<close> of an object literal of strings, kept as its properties in order.
\<close>

datatype body =
    NoBody
  | FormData "(jsstring \<times> jsstring) list"
  | JsonStringify "(jsstring \<times> jsstring) list"

record request =
  url :: jsstring
  http_method :: http_method
  headers :: "(jsstring \<times> jsstring) list"
  body :: body

section \<open>The Alpine widgets\<close>

text \<open>
  The three data functions return objects with the fields \<open>results\<close> and \<open>loading\<close>; the
  search widget has \<open>query\<close> and \<open>searched\<close> as well. Each object is kept together with
  the calls of \<open>fetch\<close> and of \<open>console.error\<close> its methods have made so far.
\<close>

record widget =
  results :: json
  loading :: bool
  fetches :: "request list"
  console :: "(jsstring \<times> jserror) list"

record search_widget = widget +
  query :: jsstring
  searched :: bool

text \<open>
  The three chains are the same text:
  \<^verbatim>\<open>.then(res => res.json()).then(data => this.results = data.error ? [] : data)
  .catch(err => console.error('Fetch Error:', err))
  .finally(() => this.loading = false)\<close>
  The callbacks are written once, for any of the objects.
\<close>

text \<open>\<open>data => this.results = data.error ? [] : data\<close>\<close>

definition set_results :: "(json, json, 'a widget_scheme) callback" where
  "set_results data w =
     (case get_prop data (js ''error'') of
        Inl e \<Rightarrow> (Inl e, w)
      | Inr err \<Rightarrow>
          let v = (if truthy err then JArr [] else data)
          in (Inr v, w\<lparr>results := v\<rparr>))"

text \<open>
  \<open>err => console.error('Fetch Error:', err)\<close>. The callback returns \<open>undefined\<close>; the
  value of the chain is not used afterwards, and \<open>JNull\<close> stands for it here.
\<close>

definition log_fetch_error :: "(jserror, json, 'a widget_scheme) callback" where
  "log_fetch_error err w = (Inr JNull, w\<lparr>console := console w @ [(js ''Fetch Error:'', err)]\<rparr>)"

text \<open>\<open>() => this.loading = false\<close>\<close>

definition clear_loading :: "'a widget_scheme \<Rightarrow> (jserror + unit) \<times> 'a widget_scheme" where
  "clear_loading w = (Inr (), w\<lparr>loading := False\<rparr>)"

subsection \<open>\<open>jackettSearch\<close>\<close>

definition jackettSearch :: search_widget where
  "jackettSearch = \<lparr>results = JArr [], loading = False, fetches = [], console = [],
     query = [], searched = False\<rparr>"

text \<open>
  The synchronous part of \<open>search()\<close>, up to and including the call of \<open>fetch\<close>:
  the states of the object in the order the statements produce them, starting with the state
  at the call. \<open>formData.append\<close> stores the query as a scalar value string; the three
  literals are ASCII, which the conversion leaves as they are.
\<close>

definition search_trace :: "search_widget \<Rightarrow> search_widget list" where
  "search_trace w =
     (if length (trim (query w)) < 3 then
        let w1 = w\<lparr>results := JArr []\<rparr>;
            w2 = w1\<lparr>searched := False\<rparr>
        in [w, w1, w2]
      else
        let w1 = w\<lparr>loading := True\<rparr>;
            w2 = w1\<lparr>searched := True\<rparr>;
            formData = [(js ''query'', to_usv_string (query w2)),
                        (js ''media_type'', js ''all'')];
            w3 = w2\<lparr>fetches := fetches w2 @
                   [\<lparr>url = js ''/search_jackett'', http_method = POST, headers = [],
                     body = FormData formData\<rparr>]\<rparr>
        in [w, w1, w2, w3])"

text \<open>The state when \<open>search()\<close> returns.\<close>

definition search :: "search_widget \<Rightarrow> search_widget" where
  "search w = last (search_trace w)"

text \<open>The chain of \<open>search()\<close>, run on what \<open>fetch\<close> settles to.\<close>

definition search_settle :: "jserror + response \<Rightarrow> (json, search_widget) promise" where
  "search_settle outcome =
     finally_p
       (catch_p (then_p (then_p (settled outcome) res_json) set_results) log_fetch_error)
       clear_loading"

subsection \<open>\<open>availableMedia\<close> and \<open>recentMedia\<close>\<close>

text \<open>
  \<open>mediaType\<close> and \<open>limit\<close> are only interpolated into the URL; they stand here for the
  strings the template literal makes of the arguments.
\<close>

definition availableMedia :: widget where
  "availableMedia = \<lparr>results = JArr [], loading = True, fetches = [], console = []\<rparr>"

definition availableMedia_init :: "jsstring \<Rightarrow> jsstring \<Rightarrow> widget \<Rightarrow> widget" where
  "availableMedia_init mediaType limit w =
     w\<lparr>fetches := fetches w @
        [\<lparr>url = js ''/jackett_available/'' @ mediaType @ js ''?limit='' @ limit,
          http_method = GET, headers = [], body = NoBody\<rparr>]\<rparr>"

definition availableMedia_settle :: "jserror + response \<Rightarrow> (json, widget) promise" where
  "availableMedia_settle outcome =
     finally_p
       (catch_p (then_p (then_p (settled outcome) res_json) set_results) log_fetch_error)
       clear_loading"

definition recentMedia :: widget where
  "recentMedia = \<lparr>results = JArr [], loading = True, fetches = [], console = []\<rparr>"

definition recentMedia_init :: "jsstring \<Rightarrow> widget \<Rightarrow> widget" where
  "recentMedia_init mediaType w =
     w\<lparr>fetches := fetches w @
        [\<lparr>url = js ''/jackett_recent/'' @ mediaType,
          http_method = GET, headers = [], body = NoBody\<rparr>]\<rparr>"

definition recentMedia_settle :: "jserror + response \<Rightarrow> (json, widget) promise" where
  "recentMedia_settle outcome =
     finally_p
       (catch_p (then_p (then_p (settled outcome) res_json) set_results) log_fetch_error)
       clear_loading"

section \<open>The settings forms\<close>

text \<open>
  The template literal \<open>${result.message}\<close> applies ToString. \<open>undefined\<close>, \<open>null\<close>
  and booleans give their names, a string itself, an array its elements joined by commas
  with \<open>null\<close> elements empty, a plain object \<open>[object Object]\<close>. A decoded object with
  an own property \<open>toString\<close> has no callable conversion left (the property is not a
  function, and \<open>valueOf\<close> gives back the object), which throws a TypeError. How a double
  is printed is the parameter \<open>fmt\<close>.
\<close>

fun join_comma :: "(jserror + jsstring) list \<Rightarrow> jserror + jsstring" where
  "join_comma [] = Inr []"
| "join_comma [x] = x"
| "join_comma (x # y # ys) =
     (case x of
        Inl e \<Rightarrow> Inl e
      | Inr a \<Rightarrow> (case join_comma (y # ys) of Inl e \<Rightarrow> Inl e | Inr b \<Rightarrow> Inr (a @ js '','' @ b)))"

fun json_to_string :: "(jsnumber \<Rightarrow> jsstring) \<Rightarrow> json \<Rightarrow> jserror + jsstring" where
  "json_to_string fmt JNull = Inr (js ''null'')"
| "json_to_string fmt (JBool b) = Inr (if b then js ''true'' else js ''false'')"
| "json_to_string fmt (JNum n) = Inr (fmt n)"
| "json_to_string fmt (JStr s) = Inr s"
| "json_to_string fmt (JArr xs) =
     join_comma (map (\<lambda>x. if x = JNull then Inr [] else json_to_string fmt x) xs)"
| "json_to_string fmt (JObj kvs) =
     (if js ''toString'' \<in> fst ` set kvs
      then Inl (TypeError (js ''Cannot convert object to primitive value''))
      else Inr (js ''[object Object]''))"

fun to_string :: "(jsnumber \<Rightarrow> jsstring) \<Rightarrow> jsval \<Rightarrow> jserror + jsstring" where
  "to_string fmt Undefined = Inr (js ''undefined'')"
| "to_string fmt (Json v) = json_to_string fmt v"

text \<open>
  The page, as far as the settings handlers read and write it: the values of the input
  elements by id (\<open>None\<close> where \<open>getElementById\<close> gives \<open>null\<close>), the submit button of
  each form (\<open>None\<close> where \<open>querySelector\<close> gives \<open>null\<close>), \<open>innerHTML\<close> of the
  element \<open>settings-notifications\<close> (\<open>None\<close> where there is no such element), the clock in
  milliseconds with the timeouts that are set, the closures of the requests in flight, and
  the calls of \<open>fetch\<close> and \<open>console.error\<close> made so far.
\<close>

datatype form = JackettForm | QbitForm

record button =
  textContent :: jsstring
  disabled :: bool

text \<open>\<open>() => { notificationArea.innerHTML = ''; }\<close>, the only callback given to \<open>setTimeout\<close>.\<close>

datatype timer_callback = ClearNotifications

text \<open>What the callbacks of one \<open>saveSettings\<close> call close over.\<close>

record save_closure =
  formElement :: form
  originalButtonText :: jsstring

record page =
  inputs :: "jsstring \<Rightarrow> jsstring option"
  buttons :: "form \<Rightarrow> button option"
  notificationArea :: "jsstring option"
  now :: nat
  timers :: "(nat \<times> timer_callback) list"
  in_flight :: "save_closure list"
  page_fetches :: "request list"
  page_console :: "(jsstring \<times> jserror) list"

text \<open>Writes through the references \<open>button\<close> and \<open>notificationArea\<close>.\<close>

definition set_button :: "form \<Rightarrow> (button \<Rightarrow> button) \<Rightarrow> page \<Rightarrow> page" where
  "set_button f upd p = p\<lparr>buttons := (buttons p)(f := map_option upd (buttons p f))\<rparr>"

definition set_innerHTML :: "jsstring \<Rightarrow> page \<Rightarrow> page" where
  "set_innerHTML html p = p\<lparr>notificationArea := map_option (\<lambda>_. html) (notificationArea p)\<rparr>"

text \<open>\<open>setTimeout(cb, delay)\<close>: the timeout is due \<open>delay\<close> milliseconds from now.\<close>

definition setTimeout :: "timer_callback \<Rightarrow> nat \<Rightarrow> page \<Rightarrow> page" where
  "setTimeout cb delay p = p\<lparr>timers := timers p @ [(now p + delay, cb)]\<rparr>"

fun run_timer :: "timer_callback \<Rightarrow> page \<Rightarrow> page" where
  "run_timer ClearNotifications p = set_innerHTML [] p"

text \<open>
  Time passes by \<open>dt\<close> milliseconds with no other event: the timeouts due by then run, in
  the order they were set, and are removed. Every timeout of these scripts has the same delay,
  so that order is the order in which they are due; a timeout runs exactly when it is due
  (a browser may run it later, never earlier).
\<close>

definition advance :: "nat \<Rightarrow> page \<Rightarrow> page" where
  "advance dt p =
     (let t = now p + dt;
          due = filter (\<lambda>(d, cb). d \<le> t) (timers p);
          rest = filter (\<lambda>(d, cb). \<not> d \<le> t) (timers p)
      in foldl (\<lambda>q (d, cb). run_timer cb q) (p\<lparr>now := t, timers := rest\<rparr>) due)"

text \<open>The two string templates of \<open>saveSettings\<close>.\<close>

definition result_banner :: "jsstring \<Rightarrow> jsstring \<Rightarrow> jsstring" where
  \<open>result_banner alertClass message =
     js ''<div class="alert '' @ alertClass @ js ''" role="alert">'' @ message @ js ''</div>''\<close>

definition error_banner :: jsstring where
  \<open>error_banner =
     js ''<div class="alert alert-danger" role="alert">An unexpected error occurred. Check console for details.</div>''\<close>

definition save_request :: "(jsstring \<times> jsstring) list \<Rightarrow> request" where
  "save_request data = \<lparr>url = js ''/admin/save_settings'', http_method = POST,
     headers = [(js ''Content-Type'', js ''application/json'')], body = JsonStringify data\<rparr>"

text \<open>
  The synchronous part of \<open>saveSettings(data, formElement)\<close>, up to and including the call
  of \<open>fetch\<close> with its chain: the result and the states of the page in the order the
  statements produce them, starting with the state at the call. A \<open>null\<close> button or
  notification area throws where it is first used, with the writes made before kept.
\<close>

definition saveSettings_trace ::
    "(jsstring \<times> jsstring) list \<Rightarrow> form \<Rightarrow> page \<Rightarrow> (jserror + unit) \<times> page list" where
  "saveSettings_trace data f p =
     (case buttons p f of
        None \<Rightarrow> (Inl (TypeError (js ''Cannot read properties of null'')), [p])
      | Some button \<Rightarrow>
          let originalButtonText = textContent button;
              p1 = set_button f (\<lambda>b. b\<lparr>textContent := js ''Saving...''\<rparr>) p;
              p2 = set_button f (\<lambda>b. b\<lparr>disabled := True\<rparr>) p1
          in (case notificationArea p2 of
                None \<Rightarrow> (Inl (TypeError (js ''Cannot set properties of null'')), [p, p1, p2])
              | Some html \<Rightarrow>
                  let p3 = set_innerHTML [] p2;
                      p4 = p3\<lparr>page_fetches := page_fetches p3 @ [save_request data],
                              in_flight := in_flight p3 @
                                [\<lparr>formElement = f, originalButtonText = originalButtonText\<rparr>]\<rparr>
                  in (Inr (), [p, p1, p2, p3, p4])))"

text \<open>The result of \<open>saveSettings\<close> and the state when it returns or throws.\<close>

definition saveSettings :: "(jsstring \<times> jsstring) list \<Rightarrow> form \<Rightarrow> page \<Rightarrow> (jserror + unit) \<times> page" where
  "saveSettings data f p =
     (fst (saveSettings_trace data f p), last (snd (saveSettings_trace data f p)))"




text \<open>
  \<^verbatim>\<open>result => { let alertClass = result.success ? 'alert-success' : 'alert-danger';
              let message = `<div class="alert ${alertClass}" role="alert">${result.message}</div>`;
              notificationArea.innerHTML = message; }\<close>
\<close>

definition render_result :: "(jsnumber \<Rightarrow> jsstring) \<Rightarrow> (json, unit, page) callback" where
  "render_result fmt result p =
     (case get_prop result (js ''success'') of
        Inl e \<Rightarrow> (Inl e, p)
      | Inr success \<Rightarrow>
          let alertClass = (if truthy success then js ''alert-success'' else js ''alert-danger'')
          in (case get_prop result (js ''message'') of
                Inl e \<Rightarrow> (Inl e, p)
              | Inr m \<Rightarrow>
                  (case to_string fmt m of
                     Inl e \<Rightarrow> (Inl e, p)
                   | Inr text \<Rightarrow> (Inr (), set_innerHTML (result_banner alertClass text) p))))"

text \<open>
  \<^verbatim>\<open>(error) => { console.error('Error:', error); let message = `...`;
               notificationArea.innerHTML = message; }\<close>
\<close>

definition render_error :: "(jserror, unit, page) callback" where
  "render_error error p =
     (let p1 = p\<lparr>page_console := page_console p @ [(js ''Error:'', error)]\<rparr>
      in (Inr (), set_innerHTML error_banner p1))"

text \<open>
  \<^verbatim>\<open>() => { button.textContent = originalButtonText; button.disabled = false;
            setTimeout(() => { notificationArea.innerHTML = ''; }, 5000); }\<close>
\<close>

definition restore_button :: "save_closure \<Rightarrow> page \<Rightarrow> (jserror + unit) \<times> page" where
  "restore_button c p =
     (let p1 = set_button (formElement c) (\<lambda>b. b\<lparr>textContent := originalButtonText c\<rparr>) p;
          p2 = set_button (formElement c) (\<lambda>b. b\<lparr>disabled := False\<rparr>) p1
      in (Inr (), setTimeout ClearNotifications 5000 p2))"

text \<open>The chain of one \<open>saveSettings\<close> call, run on what its \<open>fetch\<close> settles to.\<close>

definition saveSettings_settle ::
    "(jsnumber \<Rightarrow> jsstring) \<Rightarrow> save_closure \<Rightarrow> jserror + response \<Rightarrow> (unit, page) promise" where
  "saveSettings_settle fmt c outcome =
     finally_p
       (catch_p (then_p (then_p (settled outcome) res_json) (render_result fmt)) render_error)
       (restore_button c)"



text \<open>
  What \<open>innerHTML\<close> of the notification area holds. \<open>banner_message c html\<close> reads
  \<open>html\<close> as one instance of the template of \<open>saveSettings\<close> with class \<open>c\<close>, that is
  the opening tag of the alert \<open>div\<close>, a message text and \<open></div>\<close>, and gives the
  message text. The text is what the server sent, unescaped; it can itself contain markup.
\<close>

definition banner_message :: "jsstring \<Rightarrow> jsstring \<Rightarrow> jsstring option" where
  \<open>banner_message alertClass html =
     (let pre = js ''<div class="alert '' @ alertClass @ js ''" role="alert">'';
          post = js ''</div>''
      in if length pre + length post \<le> length html \<and> take (length pre) html = pre
            \<and> drop (length html - length post) html = post
         then Some (take (length html - length pre - length post) (drop (length pre) html))
         else None)\<close>



section \<open>The season toggles\<close>

text \<open>
  The click handler reads and writes \<open>style.display\<close> of one element, the inline value.
  \<open>document.querySelector\<close> is the browser's: it gives the first element that matches, or
  \<open>null\<close>, or throws a \<open>SyntaxError\<close> DOMException for a string that is no selector; what
  matches can depend on the inline styles. It is a parameter here.
\<close>

type_synonym node = nat

record element =
  style_display :: jsstring

type_synonym document = "node \<Rightarrow> element"

type_synonym query_selector = "jsstring \<Rightarrow> document \<Rightarrow> jserror + node option"

text \<open>A toggle, by what \<open>getAttribute('data-target')\<close> gives: \<open>None\<close> is \<open>null\<close>.\<close>

record toggle =
  data_target :: "jsstring option"

text \<open>\<open>querySelector\<close> takes the string of its argument, \<open>"null"\<close> for \<open>null\<close>.\<close>

definition selector_of :: "jsstring option \<Rightarrow> jsstring" where
  "selector_of a = (case a of None \<Rightarrow> js ''null'' | Some s \<Rightarrow> s)"

definition toggle_click :: "query_selector \<Rightarrow> toggle \<Rightarrow> document \<Rightarrow> (jserror + unit) \<times> document" where
  "toggle_click querySelector t d =
     (let targetId = data_target t
      in case querySelector (selector_of targetId) d of
           Inl e \<Rightarrow> (Inl e, d)
         | Inr None \<Rightarrow> (Inr (), d)
         | Inr (Some targetElement) \<Rightarrow>
             if style_display (d targetElement) = js ''none''
             then (Inr (), d(targetElement := (d targetElement)\<lparr>style_display := js ''block''\<rparr>))
             else (Inr (), d(targetElement := (d targetElement)\<lparr>style_display := js ''none''\<rparr>)))"

section \<open>Properties of the widgets\<close>

lemmas chain_defs = finally_p_def catch_p_def then_p_def settled_def res_json_def

text \<open>The widget chain on the three kinds of outcome.\<close>

lemma chain_rejected:
  "finally_p (catch_p (then_p (then_p (settled (Inl e)) res_json) set_results) log_fetch_error)
     clear_loading w =
   (Inr JNull, [OnRejected, OnFinally],
    w\<lparr>console := console w @ [(js ''Fetch Error:'', e)], loading := False\<rparr>)"
  by (simp add: chain_defs log_fetch_error_def clear_loading_def)

lemma chain_undecoded:
  "finally_p (catch_p (then_p (then_p (settled (Inr (Response (Inl e)))) res_json) set_results)
     log_fetch_error) clear_loading w =
   (Inr JNull, [OnFulfilled, OnRejected, OnFinally],
    w\<lparr>console := console w @ [(js ''Fetch Error:'', e)], loading := False\<rparr>)"
  by (simp add: chain_defs log_fetch_error_def clear_loading_def)

lemma chain_decoded:
  "finally_p (catch_p (then_p (then_p (settled (Inr (Response (Inr data)))) res_json) set_results)
     log_fetch_error) clear_loading w =
   (case get_prop data (js ''error'') of
      Inl e \<Rightarrow>
        (Inr JNull, [OnFulfilled, OnFulfilled, OnRejected, OnFinally],
         w\<lparr>console := console w @ [(js ''Fetch Error:'', e)], loading := False\<rparr>)
    | Inr err \<Rightarrow>
        (Inr (if truthy err then JArr [] else data), [OnFulfilled, OnFulfilled, OnFinally],
         w\<lparr>results := (if truthy err then JArr [] else data), loading := False\<rparr>))"
  by (simp add: chain_defs set_results_def log_fetch_error_def clear_loading_def Let_def
      split: sum.split)

lemma chain_finalizes:
  "\<not> loading (state_of (finally_p (catch_p (then_p (then_p (settled outcome) res_json) set_results)
       log_fetch_error) clear_loading w))
   \<and> count_list (reactions_of (finally_p (catch_p (then_p (then_p (settled outcome) res_json)
       set_results) log_fetch_error) clear_loading w)) OnFinally = 1"
proof (cases outcome)
  case (Inl e)
  then show ?thesis by (simp add: chain_rejected state_of_def reactions_of_def)
next
  case (Inr res)
  then obtain r where res: "res = Response r" by (cases res) auto
  show ?thesis
  proof (cases r)
    case (Inl e)
    with Inr res show ?thesis by (simp add: chain_undecoded state_of_def reactions_of_def)
  next
    case (Inr data)
    with \<open>outcome = Inr res\<close> res show ?thesis
      by (simp add: chain_decoded state_of_def reactions_of_def split: sum.split)
  qed
qed

text \<open>The conversion to a scalar value string leaves a well-formed string as it is.\<close>

lemma to_usv_string_well_formed: "is_well_formed q \<Longrightarrow> to_usv_string q = q"
  by (induction q rule: to_usv_string.induct) (auto split: if_splits)

text \<open>
  C1: for every query whose trimmed length is less than 3, \<open>search()\<close> calls \<open>fetch\<close> not at
  all, sets \<open>results\<close> to the empty list and \<open>searched\<close> to false (and changes nothing else).
\<close>

theorem search_short_query:
  assumes "length (trim (query w)) < 3"
  shows "search w = w\<lparr>results := JArr [], searched := False\<rparr>
    \<and> fetches (search w) = fetches w
    \<and> results (search w) = JArr []
    \<and> searched (search w) = False"
  using assms by (simp add: search_def search_trace_def Let_def)

theorem search_short_query_witness:
  "length (trim (query (jackettSearch\<lparr>query := js '' ab '', results := JArr [JNull], searched := True\<rparr>))) < 3
   \<and> fetches (search (jackettSearch\<lparr>query := js '' ab '', results := JArr [JNull], searched := True\<rparr>)) = []
   \<and> results (search (jackettSearch\<lparr>query := js '' ab '', results := JArr [JNull], searched := True\<rparr>)) = JArr []
   \<and> searched (search (jackettSearch\<lparr>query := js '' ab '', results := JArr [JNull], searched := True\<rparr>)) = False"
proof -
  let ?w = "jackettSearch\<lparr>query := js '' ab '', results := JArr [JNull], searched := True\<rparr>"
  have h: "length (trim (query ?w)) < 3"
    by (simp add: jackettSearch_def js_def trim_def is_white_space_def)
  show ?thesis
    using h search_short_query [OF h]
    by (simp add: jackettSearch_def)
qed

text \<open>
  C2: for the search widget and both list widgets, \<open>loading\<close> is true right after the
  request is dispatched (for the list widgets: by \<open>init\<close> on the object as created) and false
  after the chain has run, whatever the request settled to, and the \<open>finally\<close> callback that
  resets \<open>loading\<close> runs exactly once per settlement.
\<close>

theorem loading_dispatch_settle:
  "(3 \<le> length (trim (query w)) \<longrightarrow> loading (search w))
   \<and> \<not> loading (state_of (search_settle outcome w'))
   \<and> count_list (reactions_of (search_settle outcome w')) OnFinally = 1
   \<and> loading (availableMedia_init mediaType limit availableMedia)
   \<and> \<not> loading (state_of (availableMedia_settle outcome a))
   \<and> count_list (reactions_of (availableMedia_settle outcome a)) OnFinally = 1
   \<and> loading (recentMedia_init mediaType recentMedia)
   \<and> \<not> loading (state_of (recentMedia_settle outcome r))
   \<and> count_list (reactions_of (recentMedia_settle outcome r)) OnFinally = 1"
proof -
  have 1: "3 \<le> length (trim (query w)) \<longrightarrow> loading (search w)"
    by (simp add: search_def search_trace_def Let_def)
  have 2: "loading (availableMedia_init mediaType limit availableMedia)"
    by (simp add: availableMedia_init_def availableMedia_def)
  have 3: "loading (recentMedia_init mediaType recentMedia)"
    by (simp add: recentMedia_init_def recentMedia_def)
  show ?thesis
    using 1 2 3 chain_finalizes [of outcome w'] chain_finalizes [of outcome a]
      chain_finalizes [of outcome r]
    unfolding search_settle_def availableMedia_settle_def recentMedia_settle_def
    by blast
qed

theorem loading_dispatch_settle_witness:
  "3 \<le> length (trim (query (jackettSearch\<lparr>query := js ''dune''\<rparr>)))
   \<and> loading (search (jackettSearch\<lparr>query := js ''dune''\<rparr>))
   \<and> \<not> loading (state_of (search_settle (Inl (TypeError (js ''Failed to fetch'')))
         (search (jackettSearch\<lparr>query := js ''dune''\<rparr>))))
   \<and> count_list (reactions_of (search_settle (Inl (TypeError (js ''Failed to fetch'')))
         (search (jackettSearch\<lparr>query := js ''dune''\<rparr>)))) OnFinally = 1"
proof -
  let ?w = "jackettSearch\<lparr>query := js ''dune''\<rparr>"
  have h: "3 \<le> length (trim (query ?w))"
    by (simp add: jackettSearch_def js_def trim_def is_white_space_def)
  show ?thesis
    using h loading_dispatch_settle [of ?w "Inl (TypeError (js ''Failed to fetch''))" "search ?w"]
    by blast
qed

text \<open>
  C3, as the code has it: when reading \<open>error\<close> from the decoded body gives a value (the
  body is not \<open>null\<close>), \<open>results\<close> becomes the empty list if that value is truthy, and the
  decoded body if it is falsy or the property is absent; in all three widgets.
\<close>

theorem error_field_policy:
  assumes "get_prop data (js ''error'') = Inr err"
  shows "results (state_of (search_settle (Inr (Response (Inr data))) w)) =
           (if truthy err then JArr [] else data)
    \<and> results (state_of (availableMedia_settle (Inr (Response (Inr data))) a)) =
           (if truthy err then JArr [] else data)
    \<and> results (state_of (recentMedia_settle (Inr (Response (Inr data))) r)) =
           (if truthy err then JArr [] else data)"
  using assms
  by (simp add: search_settle_def availableMedia_settle_def recentMedia_settle_def chain_decoded
      state_of_def)

theorem error_field_policy_witness:
  "get_prop (JObj [(js ''error'', JStr (js ''x''))]) (js ''error'') = Inr (Json (JStr (js ''x'')))
   \<and> results (state_of (search_settle (Inr (Response (Inr (JObj [(js ''error'', JStr (js ''x''))]))))
        (jackettSearch\<lparr>results := JArr [JNull]\<rparr>))) = JArr []
   \<and> results (state_of (availableMedia_settle
        (Inr (Response (Inr (JObj [(js ''error'', JStr (js ''x''))])))) availableMedia)) = JArr []
   \<and> results (state_of (recentMedia_settle
        (Inr (Response (Inr (JObj [(js ''error'', JStr (js ''x''))])))) recentMedia)) = JArr []"
proof -
  have h: "get_prop (JObj [(js ''error'', JStr (js ''x''))]) (js ''error'') =
      Inr (Json (JStr (js ''x'')))"
    by simp
  have t: "truthy (Json (JStr (js ''x'')))"
    by (simp add: js_def)
  show ?thesis
    using h t error_field_policy [OF h, of "jackettSearch\<lparr>results := JArr [JNull]\<rparr>"
        availableMedia recentMedia]
    by simp
qed

text \<open>
  C3 as stated fails: the body \<open>{"error": ""}\<close> carries an error field, and \<open>results\<close>
  becomes that body, not the empty list; the body \<open>null\<close> carries none, and \<open>results\<close>
  keeps its old value while the TypeError of the property read is logged.
\<close>

theorem error_field_counterexample:
  "results (state_of (search_settle (Inr (Response (Inr (JObj [(js ''error'', JStr [])]))))
      jackettSearch)) = JObj [(js ''error'', JStr [])]
   \<and> results (state_of (search_settle (Inr (Response (Inr (JObj [(js ''error'', JStr [])]))))
      jackettSearch)) \<noteq> JArr []
   \<and> results (state_of (search_settle (Inr (Response (Inr JNull)))
      (jackettSearch\<lparr>results := JArr [JStr (js ''old'')]\<rparr>))) = JArr [JStr (js ''old'')]
   \<and> results (state_of (search_settle (Inr (Response (Inr JNull)))
      (jackettSearch\<lparr>results := JArr [JStr (js ''old'')]\<rparr>))) \<noteq> JNull"
  by (simp add: search_settle_def chain_decoded state_of_def jackettSearch_def)

text \<open>
  C4, as the code has it: for every query whose trimmed length is at least 3, \<open>search()\<close>
  sets \<open>loading\<close> to true, then \<open>searched\<close> to true, and then makes exactly one call
  of \<open>fetch\<close>: a POST to \<open>/search_jackett\<close> whose form data holds
  \<open>media_type = "all"\<close> and the query as a scalar value string, which is the query itself
  when it has no unpaired surrogate.
\<close>

theorem search_long_query:
  assumes "3 \<le> length (trim (query w))"
  shows "search_trace w =
           [w,
            w\<lparr>loading := True\<rparr>,
            w\<lparr>loading := True, searched := True\<rparr>,
            w\<lparr>loading := True, searched := True,
              fetches := fetches w @
                [\<lparr>url = js ''/search_jackett'', http_method = POST, headers = [],
                  body = FormData [(js ''query'', to_usv_string (query w)),
                                   (js ''media_type'', js ''all'')]\<rparr>]\<rparr>]
    \<and> search w =
           w\<lparr>loading := True, searched := True,
             fetches := fetches w @
               [\<lparr>url = js ''/search_jackett'', http_method = POST, headers = [],
                 body = FormData [(js ''query'', to_usv_string (query w)),
                                  (js ''media_type'', js ''all'')]\<rparr>]\<rparr>
    \<and> (is_well_formed (query w) \<longrightarrow> to_usv_string (query w) = query w)"
  using assms by (simp add: search_def search_trace_def Let_def to_usv_string_well_formed)

theorem search_long_query_witness:
  "3 \<le> length (trim (query (jackettSearch\<lparr>query := js '' dune ''\<rparr>)))
   \<and> is_well_formed (query (jackettSearch\<lparr>query := js '' dune ''\<rparr>))
   \<and> fetches (search (jackettSearch\<lparr>query := js '' dune ''\<rparr>)) =
       [\<lparr>url = js ''/search_jackett'', http_method = POST, headers = [],
         body = FormData [(js ''query'', js '' dune ''), (js ''media_type'', js ''all'')]\<rparr>]
   \<and> loading (search (jackettSearch\<lparr>query := js '' dune ''\<rparr>))
   \<and> searched (search (jackettSearch\<lparr>query := js '' dune ''\<rparr>))"
proof -
  let ?w = "jackettSearch\<lparr>query := js '' dune ''\<rparr>"
  have h: "3 \<le> length (trim (query ?w))"
    by (simp add: jackettSearch_def js_def trim_def is_white_space_def)
  have wf: "is_well_formed (query ?w)"
    by (simp add: jackettSearch_def js_def is_high_surrogate_def is_low_surrogate_def)
  show ?thesis
    using h wf search_long_query [OF h]
    by (simp add: jackettSearch_def)
qed

text \<open>
  C4 as stated fails: the query \<open>"ab\uD800"\<close> has trimmed length 3, and the form data of
  the request holds \<open>"ab\uFFFD"\<close>, which is not the query.
\<close>

theorem search_long_query_counterexample:
  "3 \<le> length (trim (query (jackettSearch\<lparr>query := [0x61, 0x62, 0xD800]\<rparr>)))
   \<and> map body (fetches (search (jackettSearch\<lparr>query := [0x61, 0x62, 0xD800]\<rparr>))) =
       [FormData [(js ''query'', [0x61, 0x62, 0xFFFD]), (js ''media_type'', js ''all'')]]
   \<and> [0x61, 0x62, 0xFFFD] \<noteq> query (jackettSearch\<lparr>query := [0x61, 0x62, 0xD800]\<rparr>)"
  by (simp add: search_def search_trace_def Let_def jackettSearch_def trim_def is_white_space_def
      is_high_surrogate_def is_low_surrogate_def)

text \<open>
  C5: when the request of the search widget fails in transport (\<open>fetch\<close> rejects) or in
  decoding (\<open>res.json()\<close> rejects), the error is logged with \<open>console.error\<close>,
  \<open>loading\<close> becomes false, and nothing else changes: \<open>results\<close> keeps its value.
\<close>

theorem search_settle_failure:
  "search_settle (Inl e) w =
     (Inr JNull, [OnRejected, OnFinally],
      w\<lparr>console := console w @ [(js ''Fetch Error:'', e)], loading := False\<rparr>)
   \<and> search_settle (Inr (Response (Inl e))) w =
     (Inr JNull, [OnFulfilled, OnRejected, OnFinally],
      w\<lparr>console := console w @ [(js ''Fetch Error:'', e)], loading := False\<rparr>)
   \<and> results (state_of (search_settle (Inl e) w)) = results w
   \<and> results (state_of (search_settle (Inr (Response (Inl e))) w)) = results w"
  by (simp add: search_settle_def chain_rejected chain_undecoded state_of_def)

section \<open>Properties of the settings forms\<close>

text \<open>The predicate \<open>is_template_instance\<close> holds exactly of the instances of the template.\<close>

lemma banner_message_result_banner:
  "banner_message c (result_banner c m) = Some m"
  by (simp add: banner_message_def result_banner_def Let_def)



lemma error_banner_eq:
  "error_banner = result_banner (js ''alert-danger'')
     (js ''An unexpected error occurred. Check console for details.'')"
  by (simp add: error_banner_def result_banner_def js_def)



lemma saveSettings_settle_rejected:
  "saveSettings_settle fmt c (Inl e) p =
     (Inr (), [OnRejected, OnFinally], snd (restore_button c (snd (render_error e p))))"
  by (simp add: saveSettings_settle_def chain_defs render_error_def restore_button_def Let_def)

lemma saveSettings_settle_undecoded:
  "saveSettings_settle fmt c (Inr (Response (Inl e))) p =
     (Inr (), [OnFulfilled, OnRejected, OnFinally],
      snd (restore_button c (snd (render_error e p))))"
  by (simp add: saveSettings_settle_def chain_defs render_error_def restore_button_def Let_def)

lemma saveSettings_settle_decoded:
  "saveSettings_settle fmt c (Inr (Response (Inr result))) p =
     (case render_result fmt result p of
        (Inl e, q) \<Rightarrow>
          (Inr (), [OnFulfilled, OnFulfilled, OnRejected, OnFinally],
           snd (restore_button c (snd (render_error e q))))
      | (Inr u, q) \<Rightarrow>
          (Inr (), [OnFulfilled, OnFulfilled, OnFinally], snd (restore_button c q)))"
  by (simp add: saveSettings_settle_def chain_defs render_error_def restore_button_def Let_def
      split: prod.split sum.split)


lemma restore_button_fields:
  "notificationArea (snd (restore_button c p)) = notificationArea p"
  "timers (snd (restore_button c p)) = timers p @ [(now p + 5000, ClearNotifications)]"
  "now (snd (restore_button c p)) = now p"
  "page_console (snd (restore_button c p)) = page_console p"
  "page_fetches (snd (restore_button c p)) = page_fetches p"
  "buttons (snd (restore_button c p)) (formElement c) =
     map_option (\<lambda>b. b\<lparr>textContent := originalButtonText c, disabled := False\<rparr>)
       (buttons p (formElement c))"
  by (simp_all add: restore_button_def set_button_def setTimeout_def Let_def option.map_comp comp_def)

lemma render_error_fields:
  "notificationArea (snd (render_error e p)) = map_option (\<lambda>_. error_banner) (notificationArea p)"
  "timers (snd (render_error e p)) = timers p"
  "now (snd (render_error e p)) = now p"
  "buttons (snd (render_error e p)) = buttons p"
  "page_console (snd (render_error e p)) = page_console p @ [(js ''Error:'', e)]"
  by (simp_all add: render_error_def set_innerHTML_def Let_def)

lemma set_innerHTML_fields:
  "notificationArea (set_innerHTML h p) = map_option (\<lambda>_. h) (notificationArea p)"
  "timers (set_innerHTML h p) = timers p"
  "now (set_innerHTML h p) = now p"
  "buttons (set_innerHTML h p) = buttons p"
  "page_console (set_innerHTML h p) = page_console p"
  by (simp_all add: set_innerHTML_def)










lemma run_timers_area:
  "notificationArea (foldl (\<lambda>q (d, cb). run_timer cb q) p due) =
     (if due = [] then notificationArea p else map_option (\<lambda>_. []) (notificationArea p))"
proof (induction due arbitrary: p)
  case Nil
  show ?case by simp
next
  case (Cons t due)
  obtain d cb where t: "t = (d, cb)" by force
  have cb: "cb = ClearNotifications" by (cases cb) simp
  show ?case
    by (simp add: Cons.IH t cb set_innerHTML_fields option.map_comp comp_def)
qed

lemma advance_area:
  "notificationArea (advance dt p) =
     (if \<exists>(d, cb) \<in> set (timers p). d \<le> now p + dt
      then map_option (\<lambda>_. []) (notificationArea p) else notificationArea p)"
  by (auto simp: advance_def Let_def run_timers_area filter_empty_conv)




lemma render_result_buttons:
  "buttons (snd (render_result fmt result p)) = buttons p"
  by (simp add: render_result_def Let_def set_innerHTML_fields split: sum.split)

lemma settle_button:
  "buttons (state_of (saveSettings_settle fmt c outcome p)) (formElement c) =
     map_option (\<lambda>b. b\<lparr>textContent := originalButtonText c, disabled := False\<rparr>)
       (buttons p (formElement c))"
proof (cases outcome)
  case (Inl e)
  then show ?thesis
    by (simp add: saveSettings_settle_rejected state_of_def restore_button_fields
        render_error_fields)
next
  case (Inr res)
  then obtain r where res: "outcome = Inr (Response r)" by (cases res) auto
  show ?thesis
  proof (cases r)
    case (Inl e)
    with res show ?thesis
      by (simp add: saveSettings_settle_undecoded state_of_def restore_button_fields
          render_error_fields)
  next
    case (Inr result)
    obtain x q where rr: "render_result fmt result p = (x, q)" by force
    then have "buttons q = buttons p"
      using render_result_buttons [of fmt result p] by simp
    with res Inr rr show ?thesis
      by (simp add: saveSettings_settle_decoded state_of_def restore_button_fields
          render_error_fields split: sum.split)
  qed
qed

lemma render_result_saved:
  "render_result fmt (JObj [(js ''success'', JBool True), (js ''message'', JStr (js ''Saved''))]) p =
     (Inr (), set_innerHTML (result_banner (js ''alert-success'') (js ''Saved'')) p)"
  by (simp add: render_result_def Let_def js_def)

lemma saved_banner_text:
  \<open>result_banner (js ''alert-success'') (js ''Saved'') =
     js ''<div class="alert alert-success" role="alert">Saved</div>''\<close>
  by (simp add: result_banner_def js_def)

lemma saveSettings_ok:
  assumes "buttons p f = Some b" and "notificationArea p = Some html"
  shows "saveSettings data f p =
    (Inr (), p\<lparr>buttons := (buttons p)(f := Some (b\<lparr>textContent := js ''Saving...'', disabled := True\<rparr>)),
               notificationArea := Some [],
               in_flight := in_flight p @ [\<lparr>formElement = f, originalButtonText = textContent b\<rparr>],
               page_fetches := page_fetches p @ [save_request data]\<rparr>)"
  using assms by (simp add: saveSettings_def saveSettings_trace_def set_button_def set_innerHTML_def Let_def)

text \<open>
  C6: when the request of a settings submission resolves with the body
  \<open>{success: true, message: "Saved"}\<close>, the notification area holds exactly one banner, of
  class \<open>alert-success\<close> with the message \<open>Saved\<close>; a timeout of 5000 ms is set that
  empties the area, so the banner is gone 5000 ms after settlement, and with no older timeout
  pending it stays until then.
\<close>

theorem save_success_banner:
  assumes "notificationArea p = Some html"
  shows \<open>let p' = state_of (saveSettings_settle fmt c
             (Inr (Response (Inr (JObj [(js ''success'', JBool True),
                                        (js ''message'', JStr (js ''Saved''))])))) p)
         in notificationArea p' = Some (js ''<div class="alert alert-success" role="alert">Saved</div>'')
          \<and> banner_message (js ''alert-success'')
                (js ''<div class="alert alert-success" role="alert">Saved</div>'') = Some (js ''Saved'')
          \<and> timers p' = timers p @ [(now p + 5000, ClearNotifications)]
          \<and> notificationArea (advance 5000 p') = Some []
          \<and> (timers p = [] \<longrightarrow> (\<forall>dt<5000. notificationArea (advance dt p') =
                Some (js ''<div class="alert alert-success" role="alert">Saved</div>'')))\<close>
proof -
  let ?body = "JObj [(js ''success'', JBool True), (js ''message'', JStr (js ''Saved''))]"
  let ?p' = "state_of (saveSettings_settle fmt c (Inr (Response (Inr ?body))) p)"
  let ?banner = \<open>js ''<div class="alert alert-success" role="alert">Saved</div>''\<close>
  have p': "?p' = snd (restore_button c
      (set_innerHTML (result_banner (js ''alert-success'') (js ''Saved'')) p))"
    by (simp add: saveSettings_settle_decoded render_result_saved state_of_def)
  have area: "notificationArea ?p' = Some ?banner"
    using assms by (simp add: p' restore_button_fields set_innerHTML_fields saved_banner_text)
  have msg: "banner_message (js ''alert-success'') ?banner = Some (js ''Saved'')"
    using banner_message_result_banner [of "js ''alert-success''" "js ''Saved''"]
    by (simp only: saved_banner_text)
  have tm: "timers ?p' = timers p @ [(now p + 5000, ClearNotifications)]"
    by (simp add: p' restore_button_fields set_innerHTML_fields)
  have nw: "now ?p' = now p"
    by (simp add: p' restore_button_fields set_innerHTML_fields)
  have gone: "notificationArea (advance 5000 ?p') = Some []"
    by (simp add: advance_area area tm nw)
  have stays: "timers p = [] \<longrightarrow> (\<forall>dt<5000. notificationArea (advance dt ?p') = Some ?banner)"
    by (simp add: advance_area area tm nw)
  from area msg tm gone stays show ?thesis
    by (simp only: Let_def)
qed


theorem save_success_banner_witness:
  \<open>let p = \<lparr>inputs = (\<lambda>i. None), buttons = (\<lambda>f. None), notificationArea = Some [], now = 0,
            timers = [], in_flight = [], page_fetches = [], page_console = []\<rparr>;
       p' = state_of (saveSettings_settle (\<lambda>n. [])
              \<lparr>formElement = JackettForm, originalButtonText = js ''Save''\<rparr>
              (Inr (Response (Inr (JObj [(js ''success'', JBool True),
                                         (js ''message'', JStr (js ''Saved''))])))) p)
   in notificationArea p = Some [] \<and> timers p = []
    \<and> notificationArea p' = Some (js ''<div class="alert alert-success" role="alert">Saved</div>'')
    \<and> notificationArea (advance 4999 p') =
          Some (js ''<div class="alert alert-success" role="alert">Saved</div>'')
    \<and> notificationArea (advance 5000 p') = Some []\<close>
proof -
  let ?p = "\<lparr>inputs = (\<lambda>i. None), buttons = (\<lambda>f. None), notificationArea = Some [], now = 0,
            timers = [], in_flight = [], page_fetches = [], page_console = []\<rparr> :: page"
  have h: "notificationArea ?p = Some []" by simp
  have t: "timers ?p = []" by simp
  have d: "(4999::nat) < 5000" by simp
  show ?thesis
    using h t d save_success_banner [OF h, of "\<lambda>n. []"
        "\<lparr>formElement = JackettForm, originalButtonText = js ''Save''\<rparr>"]
    unfolding Let_def by blast
qed

text \<open>
  C7: when the request of a settings submission is rejected (by \<open>fetch\<close> or by
  \<open>res.json()\<close>), the notification area holds exactly one banner, of class
  \<open>alert-danger\<close> with the fixed message, and the error is logged; on every outcome the
  submit button gets back the label it had when the form was submitted and is enabled.
\<close>

theorem save_failure_banner:
  assumes "buttons p f = Some b" and "notificationArea p = Some html"
    and "buttons q f = Some b'" and "notificationArea q = Some html'"
  shows "fst (saveSettings data f p) = Inr ()
    \<and> in_flight (snd (saveSettings data f p)) =
        in_flight p @ [\<lparr>formElement = f, originalButtonText = textContent b\<rparr>]
    \<and> buttons (snd (saveSettings data f p)) f =
        Some (b\<lparr>textContent := js ''Saving...'', disabled := True\<rparr>)
    \<and> notificationArea (state_of (saveSettings_settle fmt
          \<lparr>formElement = f, originalButtonText = textContent b\<rparr> (Inl e) q)) = Some error_banner
    \<and> notificationArea (state_of (saveSettings_settle fmt
          \<lparr>formElement = f, originalButtonText = textContent b\<rparr> (Inr (Response (Inl e))) q)) =
        Some error_banner
    \<and> banner_message (js ''alert-danger'') error_banner =
        Some (js ''An unexpected error occurred. Check console for details.'')
    \<and> page_console (state_of (saveSettings_settle fmt
          \<lparr>formElement = f, originalButtonText = textContent b\<rparr> (Inl e) q)) =
        page_console q @ [(js ''Error:'', e)]
    \<and> buttons (state_of (saveSettings_settle fmt
          \<lparr>formElement = f, originalButtonText = textContent b\<rparr> outcome q)) f =
        Some (b'\<lparr>textContent := textContent b, disabled := False\<rparr>)"
proof -
  let ?c = "\<lparr>formElement = f, originalButtonText = textContent b\<rparr>"
  note ok = saveSettings_ok [OF assms(1,2), of data]
  have 1: "fst (saveSettings data f p) = Inr ()" by (simp add: ok)
  have 2: "in_flight (snd (saveSettings data f p)) = in_flight p @ [?c]" by (simp add: ok)
  have 3: "buttons (snd (saveSettings data f p)) f =
      Some (b\<lparr>textContent := js ''Saving...'', disabled := True\<rparr>)" by (simp add: ok)
  have 4: "notificationArea (state_of (saveSettings_settle fmt ?c (Inl e) q)) = Some error_banner"
    using assms(4)
    by (simp add: saveSettings_settle_rejected state_of_def restore_button_fields
        render_error_fields)
  have 5: "notificationArea (state_of (saveSettings_settle fmt ?c (Inr (Response (Inl e))) q)) =
      Some error_banner"
    using assms(4)
    by (simp add: saveSettings_settle_undecoded state_of_def restore_button_fields
        render_error_fields)
  have 6: "banner_message (js ''alert-danger'') error_banner =
      Some (js ''An unexpected error occurred. Check console for details.'')"
    by (simp only: error_banner_eq banner_message_result_banner)
  have 7: "page_console (state_of (saveSettings_settle fmt ?c (Inl e) q)) =
      page_console q @ [(js ''Error:'', e)]"
    by (simp add: saveSettings_settle_rejected state_of_def restore_button_fields
        render_error_fields)
  have 8: "buttons (state_of (saveSettings_settle fmt ?c outcome q)) f =
      Some (b'\<lparr>textContent := textContent b, disabled := False\<rparr>)"
    using settle_button [of fmt ?c outcome q] assms(3) by simp
  from 1 2 3 4 5 6 7 8 show ?thesis by blast
qed

theorem save_failure_banner_witness:
  "let p = \<lparr>inputs = (\<lambda>i. None),
            buttons = (\<lambda>f. Some \<lparr>textContent = js ''Save'', disabled = False\<rparr>),
            notificationArea = Some [], now = 0, timers = [], in_flight = [],
            page_fetches = [], page_console = []\<rparr>;
       q = snd (saveSettings [] JackettForm p);
       q' = state_of (saveSettings_settle (\<lambda>n. []) (last (in_flight q))
              (Inl (TypeError (js ''Failed to fetch''))) q)
   in buttons p JackettForm = Some \<lparr>textContent = js ''Save'', disabled = False\<rparr>
    \<and> notificationArea p = Some []
    \<and> buttons q JackettForm = Some \<lparr>textContent = js ''Saving...'', disabled = True\<rparr>
    \<and> notificationArea q = Some []
    \<and> notificationArea q' = Some error_banner
    \<and> buttons q' JackettForm = Some \<lparr>textContent = js ''Save'', disabled = False\<rparr>"
proof -
  let ?b = "\<lparr>textContent = js ''Save'', disabled = False\<rparr>"
  let ?b' = "\<lparr>textContent = js ''Saving...'', disabled = True\<rparr>"
  let ?p = "\<lparr>inputs = (\<lambda>i. None), buttons = (\<lambda>f. Some ?b),
            notificationArea = Some [], now = 0, timers = [], in_flight = [],
            page_fetches = [], page_console = []\<rparr> :: page"
  let ?q = "snd (saveSettings [] JackettForm ?p)"
  have 1: "buttons ?p JackettForm = Some ?b" by simp
  have 2: "notificationArea ?p = Some []" by simp
  have 3: "buttons ?q JackettForm = Some ?b'"
    by (simp add: saveSettings_def saveSettings_trace_def set_button_def set_innerHTML_def Let_def)
  have 4: "notificationArea ?q = Some []"
    by (simp add: saveSettings_def saveSettings_trace_def set_button_def set_innerHTML_def Let_def)
  have 5: "last (in_flight ?q) = \<lparr>formElement = JackettForm, originalButtonText = textContent ?b\<rparr>"
    by (simp add: saveSettings_def saveSettings_trace_def set_button_def set_innerHTML_def Let_def)
  show ?thesis
    using 1 2 3 4 save_failure_banner [OF 1 2 3 4, of "[]" "\<lambda>n. []"
        "TypeError (js ''Failed to fetch'')" "Inl (TypeError (js ''Failed to fetch''))"]
    unfolding Let_def 5 by simp
qed








section \<open>Properties of the season toggles\<close>

text \<open>
  C8, as the code has it: when the toggle's selector finds the same element at both clicks,
  two clicks leave the element hidden by its inline style exactly if it was so before, and
  leave every other element as it was; the inline \<open>display\<close> value itself comes back only
  when it was \<open>none\<close> or \<open>block\<close>, any other value (the empty one too) ends as \<open>block\<close>.
\<close>

theorem toggle_twice:
  assumes "querySelector (selector_of (data_target t)) d = Inr (Some el)"
    and "querySelector (selector_of (data_target t)) (snd (toggle_click querySelector t d)) =
           Inr (Some el)"
  shows "let d2 = snd (toggle_click querySelector t (snd (toggle_click querySelector t d)))
         in style_display (d2 el) =
              (if style_display (d el) = js ''none'' then js ''none'' else js ''block'')
          \<and> (style_display (d2 el) = js ''none'' \<longleftrightarrow> style_display (d el) = js ''none'')
          \<and> (\<forall>n. n \<noteq> el \<longrightarrow> d2 n = d n)
          \<and> (style_display (d el) = js ''none'' \<or> style_display (d el) = js ''block'' \<longrightarrow> d2 = d)"
proof -
  have ne: "js ''block'' \<noteq> js ''none''" by (simp add: js_def)
  have d1: "snd (toggle_click querySelector t d) =
      (if style_display (d el) = js ''none''
       then d(el := (d el)\<lparr>style_display := js ''block''\<rparr>)
       else d(el := (d el)\<lparr>style_display := js ''none''\<rparr>))"
    using assms(1) by (simp add: toggle_click_def Let_def)
  let ?d1 = "snd (toggle_click querySelector t d)"
  have d2: "snd (toggle_click querySelector t ?d1) =
      (if style_display (?d1 el) = js ''none''
       then ?d1(el := (?d1 el)\<lparr>style_display := js ''block''\<rparr>)
       else ?d1(el := (?d1 el)\<lparr>style_display := js ''none''\<rparr>))"
    using assms(2) by (simp add: toggle_click_def Let_def)
  show ?thesis
    unfolding Let_def d2 unfolding d1 using ne
    by (auto simp: fun_eq_iff)
qed

theorem toggle_twice_witness:
  "let querySelector = (\<lambda>s d. if s = js ''#season-1'' then Inr (Some 0) else Inr None);
       t = \<lparr>data_target = Some (js ''#season-1'')\<rparr>;
       d = (\<lambda>n. \<lparr>style_display = js ''none''\<rparr>);
       d2 = snd (toggle_click querySelector t (snd (toggle_click querySelector t d)))
   in querySelector (selector_of (data_target t)) d = Inr (Some 0)
    \<and> querySelector (selector_of (data_target t)) (snd (toggle_click querySelector t d)) =
        Inr (Some 0)
    \<and> style_display (d 0) = js ''none''
    \<and> style_display (d2 0) = js ''none'' \<and> d2 1 = d 1 \<and> d2 = d"
proof -
  let ?qs = "(\<lambda>s d. if s = js ''#season-1'' then Inr (Some 0) else Inr None) :: query_selector"
  let ?t = "\<lparr>data_target = Some (js ''#season-1'')\<rparr>"
  let ?d = "(\<lambda>n. \<lparr>style_display = js ''none''\<rparr>) :: document"
  have 1: "?qs (selector_of (data_target ?t)) ?d = Inr (Some 0)"
    by (simp add: selector_of_def)
  have 2: "?qs (selector_of (data_target ?t)) (snd (toggle_click ?qs ?t ?d)) = Inr (Some 0)"
    by (simp add: selector_of_def)
  have 3: "style_display (?d 0) = js ''none''" by simp
  have 4: "(1::nat) \<noteq> 0" by simp
  have "?qs (selector_of (data_target ?t)) ?d = Inr (Some 0) \<Longrightarrow>
        ?qs (selector_of (data_target ?t)) (snd (toggle_click ?qs ?t ?d)) = Inr (Some 0) \<Longrightarrow>
        (let d2 = snd (toggle_click ?qs ?t (snd (toggle_click ?qs ?t ?d)))
         in style_display (d2 0) =
              (if style_display (?d 0) = js ''none'' then js ''none'' else js ''block'')
          \<and> (style_display (d2 0) = js ''none'' \<longleftrightarrow> style_display (?d 0) = js ''none'')
          \<and> (\<forall>n. n \<noteq> 0 \<longrightarrow> d2 n = ?d n)
          \<and> (style_display (?d 0) = js ''none'' \<or> style_display (?d 0) = js ''block''
               \<longrightarrow> d2 = ?d))"
    by (rule toggle_twice [of ?qs ?t ?d 0])
  from this [OF 1 2] 1 2 3 4 show ?thesis
    unfolding Let_def by metis
qed

text \<open>
  C8 as stated fails: an element with no inline \<open>display\<close> has the inline value
  \<open>block\<close> after two clicks.
\<close>

theorem toggle_twice_counterexample:
  "style_display ((\<lambda>n. \<lparr>style_display = []\<rparr>) (0::nat)) = []
   \<and> style_display
       (snd (toggle_click (\<lambda>s d. if s = js ''#season-1'' then Inr (Some 0) else Inr None)
          \<lparr>data_target = Some (js ''#season-1'')\<rparr>
          (snd (toggle_click (\<lambda>s d. if s = js ''#season-1'' then Inr (Some 0) else Inr None)
             \<lparr>data_target = Some (js ''#season-1'')\<rparr>
             (\<lambda>n. \<lparr>style_display = []\<rparr>)))) 0) = js ''block''
   \<and> js ''block'' \<noteq> []"
  by (simp add: toggle_click_def selector_of_def Let_def js_def)

text \<open>
  C10: when the selector of a toggle finds no element (\<open>querySelector\<close> gives \<open>null\<close>), a
  click raises no error and changes no element.
\<close>

theorem toggle_no_target:
  assumes "querySelector (selector_of (data_target t)) d = Inr None"
  shows "toggle_click querySelector t d = (Inr (), d)"
  using assms by (simp add: toggle_click_def Let_def)

theorem toggle_no_target_witness:
  "(\<lambda>s d. if s = js ''#season-1'' then Inr (Some 0) else Inr None)
      (selector_of (data_target \<lparr>data_target = None\<rparr>)) (\<lambda>n. \<lparr>style_display = []\<rparr>) = Inr None
   \<and> toggle_click (\<lambda>s d. if s = js ''#season-1'' then Inr (Some 0) else Inr None)
        \<lparr>data_target = None\<rparr> (\<lambda>n. \<lparr>style_display = []\<rparr>) =
      (Inr (), (\<lambda>n. \<lparr>style_display = []\<rparr>))"
proof -
  let ?qs = "(\<lambda>s d. if s = js ''#season-1'' then Inr (Some 0) else Inr None) :: query_selector"
  have h: "?qs (selector_of (data_target \<lparr>data_target = None\<rparr>)) (\<lambda>n. \<lparr>style_display = []\<rparr>) =
      Inr None"
    by (simp add: selector_of_def js_def)
  have "?qs (selector_of (data_target \<lparr>data_target = None\<rparr>)) (\<lambda>n. \<lparr>style_display = []\<rparr>) =
      Inr None \<Longrightarrow>
    toggle_click ?qs \<lparr>data_target = None\<rparr> (\<lambda>n. \<lparr>style_display = []\<rparr>) =
      (Inr (), (\<lambda>n. \<lparr>style_display = []\<rparr>))"
    by (rule toggle_no_target [of ?qs "\<lparr>data_target = None\<rparr>" "\<lambda>n. \<lparr>style_display = []\<rparr>"])
  from this [OF h] h show ?thesis by (simp add: selector_of_def js_def)
qed


end
